theory Spec2Isabelle
  imports Complex_Main
begin

section \<open>Errors and tensors\<close>

text \<open>
  The faults of the Python code are values.  \<open>RuntimeError\<close> is what torch raises
  when two shapes cannot be broadcast together, \<open>IndexError\<close> what indexing an empty
  tuple raises, \<open>TypeError\<close> and \<open>ValueError\<close> what \<^verbatim>\<open>float\<close> and
  \<^verbatim>\<open>base64.b64decode\<close> raise on \<^verbatim>\<open>None\<close> and on a malformed string; \<open>Raised\<close>
  carries the name of any other exception of a library call.
\<close>

datatype error = IndexError | RuntimeError | TypeError | ValueError | Raised string

definition bind_res :: "error + 'a \<Rightarrow> ('a \<Rightarrow> error + 'b) \<Rightarrow> error + 'b" where
  "bind_res m f = (case m of Inl e \<Rightarrow> Inl e | Inr v \<Rightarrow> f v)"

text \<open>
  A tensor is the list of its elements, a one-dimensional tensor.  The activation
  functions of \<^verbatim>\<open>models/activations.py\<close> act on every element on its own, so a tensor
  of another shape behaves as the list of its elements does.  Elements are real numbers:
  rounding, overflow and the cut-offs torch applies for numerical stability are not part
  of this model.
\<close>

type_synonym tensor = "real list"

subsection \<open>The library functions on one element\<close>

text \<open>
  \<^verbatim>\<open>torch.sigmoid\<close>, \<^verbatim>\<open>F.softplus\<close> and \<^verbatim>\<open>F.hardtanh\<close> are library functions.
  The sigmoid is the logistic function, the softplus is \<open>ln (1 + exp x)\<close> as the
  comments of the source say, and \<^verbatim>\<open>hardtanh\<close> clamps its argument between its two
  bounds.
\<close>

definition sigmoid :: "real \<Rightarrow> real" where
  "sigmoid v = 1 / (1 + exp (- v))"

definition softplus :: "real \<Rightarrow> real" where
  "softplus v = ln (1 + exp v)"

definition hardtanh :: "real \<Rightarrow> real \<Rightarrow> real \<Rightarrow> real" where
  "hardtanh v min_val max_val =
     (if v > max_val then max_val else if v < min_val then min_val else v)"

subsection \<open>The library functions on tensors\<close>

definition torch_sigmoid :: "tensor \<Rightarrow> tensor" where
  "torch_sigmoid x = map sigmoid x"

definition F_softplus :: "tensor \<Rightarrow> tensor" where
  "F_softplus x = map softplus x"

definition torch_tanh :: "tensor \<Rightarrow> tensor" where
  "torch_tanh x = map tanh x"

definition F_hardtanh :: "tensor \<Rightarrow> real \<Rightarrow> real \<Rightarrow> tensor" where
  "F_hardtanh x min_val max_val = map (\<lambda>v. hardtanh v min_val max_val) x"

text \<open>A Python number combined with a tensor: \<^verbatim>\<open>1 - t\<close>, \<^verbatim>\<open>1 + t\<close>, \<^verbatim>\<open>t + 3\<close>, \<^verbatim>\<open>t / 6.\<close>\<close>

definition scalar_sub :: "real \<Rightarrow> tensor \<Rightarrow> tensor" where
  "scalar_sub c t = map (\<lambda>v. c - v) t"

definition scalar_add :: "real \<Rightarrow> tensor \<Rightarrow> tensor" where
  "scalar_add c t = map (\<lambda>v. c + v) t"

definition add_scalar :: "tensor \<Rightarrow> real \<Rightarrow> tensor" where
  "add_scalar t c = map (\<lambda>v. v + c) t"

definition div_scalar :: "tensor \<Rightarrow> real \<Rightarrow> tensor" where
  "div_scalar t c = map (\<lambda>v. v / c) t"

text \<open>
  Two tensors combined element by element, with torch's broadcasting rule for one
  dimension: equal sizes pair up, a tensor of size 1 is stretched to the other's size, and
  any other pair of sizes raises.
\<close>

definition broadcast2 :: "(real \<Rightarrow> real \<Rightarrow> real) \<Rightarrow> tensor \<Rightarrow> tensor \<Rightarrow> error + tensor" where
  "broadcast2 f a b =
     (if length a = length b then Inr (map2 f a b)
      else if length a = 1 then Inr (map (f (hd a)) b)
      else if length b = 1 then Inr (map (\<lambda>v. f v (hd b)) a)
      else Inl RuntimeError)"

definition tensor_mul :: "tensor \<Rightarrow> tensor \<Rightarrow> error + tensor" where
  "tensor_mul a b = broadcast2 (*) a b"

definition tensor_add :: "tensor \<Rightarrow> tensor \<Rightarrow> error + tensor" where
  "tensor_add a b = broadcast2 (+) a b"

section \<open>The activation modules\<close>

text \<open>
  The context object of a \<^verbatim>\<open>torch.autograd.Function\<close>: \<^verbatim>\<open>save_for_backward\<close> stores
  the tuple of tensors that \<^verbatim>\<open>saved_tensors\<close> reads back.  \<^verbatim>\<open>F.apply\<close> calls
  \<^verbatim>\<open>forward\<close> with a fresh context and returns its output.
\<close>

record ctx =
  saved_tensors :: "tensor list"

definition save_for_backward :: "ctx \<Rightarrow> tensor list \<Rightarrow> ctx" where
  "save_for_backward c ts = c\<lparr>saved_tensors := ts\<rparr>"

definition new_ctx :: ctx where
  "new_ctx = \<lparr>saved_tensors = []\<rparr>"

definition Function_apply :: "(ctx \<Rightarrow> tensor \<Rightarrow> ctx \<times> (error + tensor)) \<Rightarrow> tensor \<Rightarrow> error + tensor" where
  "Function_apply fwd x = snd (fwd new_ctx x)"

subsection \<open>SiLU and MemoryEfficientSwish\<close>

definition SiLU_forward :: "tensor \<Rightarrow> error + tensor" where
  "SiLU_forward x = tensor_mul x (torch_sigmoid x)"

definition MemoryEfficientSwish_F_forward :: "ctx \<Rightarrow> tensor \<Rightarrow> ctx \<times> (error + tensor)" where
  "MemoryEfficientSwish_F_forward c x =
     (let c' = save_for_backward c [x]
      in (c', tensor_mul x (torch_sigmoid x)))"

definition MemoryEfficientSwish_F_backward :: "ctx \<Rightarrow> tensor \<Rightarrow> error + tensor" where
  "MemoryEfficientSwish_F_backward c grad_output =
     (case saved_tensors c of
        [] \<Rightarrow> Inl IndexError
      | x # _ \<Rightarrow>
          let sx = torch_sigmoid x in
          bind_res (tensor_mul x (scalar_sub 1 sx)) (\<lambda>t1.
          bind_res (tensor_mul sx (scalar_add 1 t1)) (\<lambda>t2.
          tensor_mul grad_output t2)))"

definition MemoryEfficientSwish_forward :: "tensor \<Rightarrow> error + tensor" where
  "MemoryEfficientSwish_forward x = Function_apply MemoryEfficientSwish_F_forward x"

subsection \<open>Hardswish\<close>

definition Hardswish_forward :: "tensor \<Rightarrow> error + tensor" where
  "Hardswish_forward x =
     bind_res (tensor_mul x (F_hardtanh (add_scalar x 3) 0 6)) (\<lambda>t. Inr (div_scalar t 6))"

subsection \<open>Mish and MemoryEfficientMish\<close>

definition Mish_forward :: "tensor \<Rightarrow> error + tensor" where
  "Mish_forward x = tensor_mul x (torch_tanh (F_softplus x))"

definition MemoryEfficientMish_F_forward :: "ctx \<Rightarrow> tensor \<Rightarrow> ctx \<times> (error + tensor)" where
  "MemoryEfficientMish_F_forward c x =
     (let c' = save_for_backward c [x]
      in (c', tensor_mul x (torch_tanh (F_softplus x))))"

definition MemoryEfficientMish_F_backward :: "ctx \<Rightarrow> tensor \<Rightarrow> error + tensor" where
  "MemoryEfficientMish_F_backward c grad_output =
     (case saved_tensors c of
        [] \<Rightarrow> Inl IndexError
      | x # _ \<Rightarrow>
          let sx = torch_sigmoid x;
              fx = torch_tanh (F_softplus x) in
          bind_res (tensor_mul x sx) (\<lambda>t1.
          bind_res (tensor_mul fx fx) (\<lambda>t2.
          bind_res (tensor_mul t1 (scalar_sub 1 t2)) (\<lambda>t3.
          bind_res (tensor_add fx t3) (\<lambda>t4.
          tensor_mul grad_output t4)))))"

definition MemoryEfficientMish_forward :: "tensor \<Rightarrow> error + tensor" where
  "MemoryEfficientMish_forward x = Function_apply MemoryEfficientMish_F_forward x"

subsection \<open>AconC\<close>

text \<open>
  The parameters \<^verbatim>\<open>p1\<close>, \<^verbatim>\<open>p2\<close> and \<^verbatim>\<open>beta\<close> of an \<^verbatim>\<open>AconC\<close> module are three
  tensors of shape \<open>(1, c1, 1, 1)\<close> that \<^verbatim>\<open>__init__\<close> creates together: one value of
  each per channel.  The module is the list of its channels' parameters, and its input a
  tensor of shape \<open>(N, C, H, W)\<close>: a batch of images, each a list of channel planes.
\<close>

record AconC_channel =
  p1 :: real
  p2 :: real
  beta :: real

type_synonym AconC = "AconC_channel list"

type_synonym plane = "real list list"

type_synonym tensor4 = "plane list list"

text \<open>
  Broadcasting along the channel dimension, the only one where the parameters' size is
  not 1: equal sizes pair up, size 1 on either side is stretched, anything else raises.
\<close>

definition broadcast_channels :: "AconC \<Rightarrow> plane list \<Rightarrow> error + (AconC_channel \<times> plane) list" where
  "broadcast_channels m img =
     (if length m = length img then Inr (zip m img)
      else if length m = 1 then Inr (map (\<lambda>pl. (hd m, pl)) img)
      else if length img = 1 then Inr (map (\<lambda>ch. (ch, hd img)) m)
      else Inl RuntimeError)"

fun collect :: "(error + 'a) list \<Rightarrow> error + 'a list" where
  "collect [] = Inr []"
| "collect (r # rs) = bind_res r (\<lambda>v. bind_res (collect rs) (\<lambda>vs. Inr (v # vs)))"

definition channelwise :: "(AconC_channel \<Rightarrow> real \<Rightarrow> real) \<Rightarrow> AconC \<Rightarrow> tensor4 \<Rightarrow> error + tensor4" where
  "channelwise f m x =
     collect (map (\<lambda>img. bind_res (broadcast_channels m img)
                (\<lambda>ps. Inr (map (\<lambda>(ch, pl). map (map (f ch)) pl) ps))) x)"

definition AconC_element :: "AconC_channel \<Rightarrow> real \<Rightarrow> real" where
  "AconC_element ch v =
     (let dpx = (p1 ch - p2 ch) * v
      in dpx * sigmoid (beta ch * dpx) + p2 ch * v)"

definition AconC_forward :: "AconC \<Rightarrow> tensor4 \<Rightarrow> error + tensor4" where
  "AconC_forward m x = channelwise AconC_element m x"

text \<open>
  The description of ACON in words: a gate \<open>w\<close>, the sigmoid of \<open>beta * (p1 - p2) * x\<close>,
  mixes the two linear functions \<open>p1 * x\<close> and \<open>p2 * x\<close>.
\<close>

definition gate :: "AconC_channel \<Rightarrow> real \<Rightarrow> real" where
  "gate ch v = sigmoid (beta ch * (p1 ch - p2 ch) * v)"

definition convex_combination :: "AconC_channel \<Rightarrow> real \<Rightarrow> real" where
  "convex_combination ch v = gate ch v * (p1 ch * v) + (1 - gate ch v) * (p2 ch * v)"

section \<open>Piecewise-linear functions\<close>

text \<open>
  The function a module computes on one element, read off a tensor of size 1.
\<close>

definition on_element :: "(tensor \<Rightarrow> error + tensor) \<Rightarrow> real \<Rightarrow> real" where
  "on_element fwd v = (case fwd [v] of Inr [y] \<Rightarrow> y | _ \<Rightarrow> 0)"

text \<open>
  A function is piecewise linear when its breakpoints are few (finitely many in every
  bounded interval) and it is affine on every interval that holds no breakpoint.
\<close>

definition affine_on :: "(real \<Rightarrow> real) \<Rightarrow> real \<Rightarrow> real \<Rightarrow> bool" where
  "affine_on f a b \<longleftrightarrow> (\<exists>m c. \<forall>v. a \<le> v \<and> v \<le> b \<longrightarrow> f v = m * v + c)"

definition piecewise_linear :: "(real \<Rightarrow> real) \<Rightarrow> bool" where
  "piecewise_linear f \<longleftrightarrow>
     (\<exists>B. (\<forall>a b. finite (B \<inter> {a..b})) \<and>
          (\<forall>a b. a < b \<and> B \<inter> {a..b} = {} \<longrightarrow> affine_on f a b))"

section \<open>The web front end\<close>

text \<open>
  The handler \<^verbatim>\<open>upload\<close> of \<^verbatim>\<open>app.py\<close> talks to the request, the network, the image
  libraries, the file system and the detector.  The request is a record; everything
  else is a field of the environment \<open>env\<close>, a function that answers with a value or
  with the exception the call raises.  Bytes are a \<open>string\<close>; the Python float, the PIL
  image and the numpy array are type parameters.  \<^verbatim>\<open>service.app_detect\<close> reads the
  images it finds on disk, so its answer may depend on the calls made before it: it
  receives the trace.  \<open>father_path\<close> is the directory of \<^verbatim>\<open>app.py\<close>; the variable
  \<^verbatim>\<open>save_path\<close> of the source is never read and is left out.
\<close>

datatype json = JString string | JInt int

type_synonym response = "(string \<times> json) list"

record request =
  form :: "string \<rightharpoonup> string"

datatype ('f, 'arr) event = HttpGet string | ImWrite string 'arr | AppDetect 'f

record ('f, 'img, 'arr) env =
  father_path :: string
  py_float :: "string \<Rightarrow> error + 'f"
  req_get :: "string \<Rightarrow> error + string"
  b64decode :: "string \<Rightarrow> error + string"
  Image_open :: "string \<Rightarrow> error + 'img"
  np_asarray :: "'img \<Rightarrow> error + 'arr"
  cvtColor :: "'arr \<Rightarrow> error + 'arr"
  imwrite :: "string \<Rightarrow> 'arr \<Rightarrow> error + bool"
  app_detect :: "'f \<Rightarrow> ('f, 'arr) event list \<Rightarrow> error + ('arr \<times> string \<times> int)"
  Image_fromarray :: "'arr \<Rightarrow> error + 'img"
  save_JPEG :: "'img \<Rightarrow> error + string"
  b64encode :: "string \<Rightarrow> string"

text \<open>
  A step of the handler takes the trace of the calls made so far and returns the trace
  and its result.  An exception ends the run: the steps after it are not taken.
\<close>

type_synonym ('f, 'arr, 'a) io = "('f, 'arr) event list \<Rightarrow> ('f, 'arr) event list \<times> (error + 'a)"

definition io_result :: "error + 'a \<Rightarrow> ('f, 'arr, 'a) io" where
  "io_result r = (\<lambda>t. (t, r))"

definition io_call :: "('f, 'arr) event \<Rightarrow> error + 'a \<Rightarrow> ('f, 'arr, 'a) io" where
  "io_call ev r = (\<lambda>t. (t @ [ev], r))"

definition io_bind :: "('f, 'arr, 'a) io \<Rightarrow> ('a \<Rightarrow> ('f, 'arr, 'b) io) \<Rightarrow> ('f, 'arr, 'b) io" where
  "io_bind m f = (\<lambda>t. case m t of (t', Inl e) \<Rightarrow> (t', Inl e) | (t', Inr v) \<Rightarrow> f v t')"

text \<open>Python's truth value of \<^verbatim>\<open>request.form.get(key)\<close>: \<^verbatim>\<open>None\<close> and \<^verbatim>\<open>''\<close> are false.\<close>

definition truthy :: "string option \<Rightarrow> bool" where
  "truthy s = (case s of None \<Rightarrow> False | Some v \<Rightarrow> v \<noteq> [])"

definition upload :: "('f, 'img, 'arr) env \<Rightarrow> request \<Rightarrow> ('f, 'arr) event list \<times> (error + response)" where
  "upload env rq =
     (let re_conf = form rq ''re_conf'' in
      io_bind (io_result (case re_conf of None \<Rightarrow> Inl TypeError | Some s \<Rightarrow> py_float env s))
        (\<lambda>re_conf.
      let file = form rq ''imageBase64Code'';
          image_link = form rq ''imageLink'' in
      io_bind
        (case (if truthy image_link then image_link else None) of
           Some link \<Rightarrow>
             io_bind (io_call (HttpGet link) (req_get env link)) (\<lambda>content.
             io_bind (io_result (Image_open env content)) (\<lambda>image.
             io_result (Inr ())))
         | None \<Rightarrow>
             io_bind (io_result (case file of None \<Rightarrow> Inl TypeError
                                  | Some s \<Rightarrow> b64decode env s)) (\<lambda>decoded.
             io_bind (io_result (Image_open env decoded)) (\<lambda>image.
             let dirs = father_path env @ ''/mydata/images/test/1.png'' in
             io_bind (io_result (np_asarray env image)) (\<lambda>arr.
             io_bind (io_result (cvtColor env arr)) (\<lambda>img.
             io_bind (io_call (ImWrite dirs img) (imwrite env dirs img)) (\<lambda>written.
             io_result (Inr ())))))))
        (\<lambda>received.
      io_bind (\<lambda>t. (t @ [AppDetect re_conf], app_detect env re_conf t))
        (\<lambda>(image_array, re_label, num).
      io_bind (io_result (cvtColor env image_array)) (\<lambda>img.
      io_bind (io_result (Image_fromarray env img)) (\<lambda>img.
      io_bind (io_result (save_JPEG env img)) (\<lambda>img_byte_array.
      let image_info = b64encode env img_byte_array in
      io_result (Inr [(''image_info'', JString image_info),
                      (''re_label'', JString re_label),
                      (''num'', JInt num)])))))))) []"

text \<open>
  An environment to run the handler in.  One URL answers with an image and one with an
  empty body, every other fetch fails; one base64 string decodes to an image and the
  empty one to no bytes, every other is malformed; empty bytes are no image; every other
  library call succeeds; and the detector annotates the image that was written last, or
  the one left on disk when none was.
\<close>

definition written_images :: "('f, 'arr) event list \<Rightarrow> 'arr list" where
  "written_images t = concat (map (\<lambda>ev. case ev of ImWrite p a \<Rightarrow> [a] | _ \<Rightarrow> []) t)"

definition example_env :: "(real, string, string) env" where
  "example_env =
     \<lparr>father_path = ''/srv/app'',
      py_float = (\<lambda>s. if s = ''0.5'' then Inr (1 / 2) else Inl ValueError),
      req_get = (\<lambda>u. if u = ''http://example.com/cat.png'' then Inr ''cat''
                      else if u = ''http://example.com/empty'' then Inr []
                      else Inl (Raised ''ConnectionError'')),
      b64decode = (\<lambda>s. if s = ''ZG9n'' then Inr ''dog''
                      else if s = [] then Inr []
                      else Inl (Raised ''binascii.Error'')),
      Image_open = (\<lambda>b. if b = [] then Inl (Raised ''UnidentifiedImageError'') else Inr b),
      np_asarray = Inr,
      cvtColor = Inr,
      imwrite = (\<lambda>p a. Inr True),
      app_detect = (\<lambda>c t. Inr (case written_images t of [] \<Rightarrow> ''old'' | a # as \<Rightarrow> last (a # as),
                                 ''1 object'', 1)),
      Image_fromarray = Inr,
      save_JPEG = (\<lambda>i. Inr (''jpeg:'' @ i)),
      b64encode = (\<lambda>b. ''b64:'' @ b)\<rparr>"

definition link_request :: request where
  "link_request =
     \<lparr>form = [''re_conf'' \<mapsto> ''0.5'', ''imageLink'' \<mapsto> ''http://example.com/cat.png'']\<rparr>"

definition both_request :: request where
  "both_request =
     \<lparr>form = [''re_conf'' \<mapsto> ''0.5'', ''imageBase64Code'' \<mapsto> ''ZG9n'',
              ''imageLink'' \<mapsto> ''http://example.com/cat.png'']\<rparr>"

definition base64_request :: request where
  "base64_request = \<lparr>form = [''re_conf'' \<mapsto> ''0.5'', ''imageBase64Code'' \<mapsto> ''ZG9n'']\<rparr>"

section \<open>Facts about the library functions\<close>

lemma map2_same: "map2 f (map g x) (map h x) = map (\<lambda>v. f (g v) (h v)) x"
  by (induction x) simp_all

lemma broadcast2_same:
  "broadcast2 f (map g x) (map h x) = Inr (map (\<lambda>v. f (g v) (h v)) x)"
  by (simp add: broadcast2_def map2_same)

lemma tensor_mul_same:
  "tensor_mul (map g x) (map h x) = Inr (map (\<lambda>v. g v * h v) x)"
  by (simp add: tensor_mul_def broadcast2_same)

lemma tensor_mul_self:
  "tensor_mul x (map h x) = Inr (map (\<lambda>v. v * h v) x)"
  using tensor_mul_same [of "\<lambda>v. v" x h] by simp

lemma tensor_add_same:
  "tensor_add (map g x) (map h x) = Inr (map (\<lambda>v. g v + h v) x)"
  by (simp add: tensor_add_def broadcast2_same)

lemma sigmoid_pos: "0 < sigmoid v"
  by (simp add: sigmoid_def add_pos_pos)

lemma sigmoid_less_one: "sigmoid v < 1"
  by (simp add: sigmoid_def add_pos_pos)

lemma sigmoid_deriv:
  "(sigmoid has_real_derivative sigmoid v * (1 - sigmoid v)) (at v)"
proof -
  have pos: "1 + exp (- v) \<noteq> 0"
    using exp_gt_zero [of "- v"] by linarith
  have "((\<lambda>t. 1 / (1 + exp (- t))) has_real_derivative
          sigmoid v * (1 - sigmoid v)) (at v)"
    using pos
    by (auto intro!: derivative_eq_intros simp: sigmoid_def field_simps power2_eq_square)
  moreover have "sigmoid = (\<lambda>t. 1 / (1 + exp (- t)))"
    by (rule ext) (simp add: sigmoid_def)
  ultimately show ?thesis by simp
qed

lemma softplus_deriv: "(softplus has_real_derivative sigmoid v) (at v)"
proof -
  have pos: "0 < 1 + exp v"
    using exp_gt_zero [of v] by linarith
  have "((\<lambda>t. ln (1 + exp t)) has_real_derivative sigmoid v) (at v)"
    using pos
    by (auto intro!: derivative_eq_intros simp: sigmoid_def field_simps exp_minus)
  moreover have "softplus = (\<lambda>t. ln (1 + exp t))"
    by (rule ext) (simp add: softplus_def)
  ultimately show ?thesis by simp
qed

lemma swish_deriv:
  "((\<lambda>t. t * sigmoid t) has_real_derivative sigmoid v * (1 + v * (1 - sigmoid v))) (at v)"
  by (auto intro!: derivative_eq_intros sigmoid_deriv simp: algebra_simps)

lemma mish_deriv:
  "((\<lambda>t. t * tanh (softplus t)) has_real_derivative
      tanh (softplus v) + v * sigmoid v * (1 - tanh (softplus v) * tanh (softplus v))) (at v)"
  by (auto intro!: derivative_eq_intros softplus_deriv simp: algebra_simps power2_eq_square)

section \<open>SiLU, Mish and their memory-efficient variants\<close>

lemma SiLU_forward_closed: "SiLU_forward x = Inr (map (\<lambda>v. v * sigmoid v) x)"
  by (simp add: SiLU_forward_def torch_sigmoid_def tensor_mul_self)

lemma Swish_F_forward_closed:
  "MemoryEfficientSwish_F_forward c x =
     (c\<lparr>saved_tensors := [x]\<rparr>, Inr (map (\<lambda>v. v * sigmoid v) x))"
  by (simp add: MemoryEfficientSwish_F_forward_def save_for_backward_def torch_sigmoid_def
      tensor_mul_self)

lemma Swish_F_backward_closed:
  "MemoryEfficientSwish_F_backward (c\<lparr>saved_tensors := [x]\<rparr>) grad_output =
     tensor_mul grad_output (map (\<lambda>v. sigmoid v * (1 + v * (1 - sigmoid v))) x)"
proof -
  have a: "tensor_mul x (scalar_sub 1 (torch_sigmoid x)) = Inr (map (\<lambda>v. v * (1 - sigmoid v)) x)"
    using tensor_mul_self [of x "\<lambda>v. 1 - sigmoid v"]
    by (simp add: scalar_sub_def torch_sigmoid_def comp_def)
  have b: "tensor_mul (torch_sigmoid x) (scalar_add 1 (map (\<lambda>v. v * (1 - sigmoid v)) x))
             = Inr (map (\<lambda>v. sigmoid v * (1 + v * (1 - sigmoid v))) x)"
    using tensor_mul_same [of sigmoid x "\<lambda>v. 1 + v * (1 - sigmoid v)"]
    by (simp add: scalar_add_def torch_sigmoid_def comp_def)
  show ?thesis
    by (simp add: MemoryEfficientSwish_F_backward_def Let_def a b bind_res_def)
qed

lemma nth_update_deriv:
  assumes "i < length x" "j < length x"
    and d: "(f has_real_derivative d) (at (x ! j))"
  shows "((\<lambda>t. map f (x[j := t]) ! i) has_real_derivative (if i = j then d else 0)) (at (x ! j))"
proof (cases "i = j")
  case True
  then have "(\<lambda>t. map f (x[j := t]) ! i) = f"
    using assms by (auto simp: fun_eq_iff)
  with True d show ?thesis by simp
next
  case False
  then have "(\<lambda>t. map f (x[j := t]) ! i) = (\<lambda>t. f (x ! i))"
    using assms by (auto simp: fun_eq_iff)
  with False show ?thesis by simp
qed

text \<open>
  Claim C1.  \<^verbatim>\<open>MemoryEfficientSwish.F.forward\<close> returns \<open>x * sigmoid x\<close> and saves \<open>x\<close>;
  \<^verbatim>\<open>backward\<close>, run on that context, returns
  \<open>grad_output * (sigmoid x * (1 + x * (1 - sigmoid x)))\<close> for every \<open>x\<close> and every
  \<open>grad_output\<close>; and the factor is the derivative of the forward: output \<open>i\<close> has, with
  respect to input \<open>j\<close>, the derivative \<open>sigmoid x\<^sub>j * (1 + x\<^sub>j * (1 - sigmoid x\<^sub>j))\<close> when
  \<open>i = j\<close> and \<open>0\<close> otherwise.
\<close>

theorem MemoryEfficientSwish_backward_is_derivative:
  "snd (MemoryEfficientSwish_F_forward c x) = Inr (map (\<lambda>v. v * sigmoid v) x)
   \<and> MemoryEfficientSwish_F_backward (fst (MemoryEfficientSwish_F_forward c x)) grad_output
       = tensor_mul grad_output (map (\<lambda>v. sigmoid v * (1 + v * (1 - sigmoid v))) x)
   \<and> (i < length x \<and> j < length x \<longrightarrow>
        ((\<lambda>t. projr (snd (MemoryEfficientSwish_F_forward c (x[j := t]))) ! i)
           has_real_derivative
             (if i = j then sigmoid (x ! j) * (1 + x ! j * (1 - sigmoid (x ! j))) else 0))
          (at (x ! j)))"
proof (intro conjI impI)
  show "snd (MemoryEfficientSwish_F_forward c x) = Inr (map (\<lambda>v. v * sigmoid v) x)"
    by (simp add: Swish_F_forward_closed)
  show "MemoryEfficientSwish_F_backward (fst (MemoryEfficientSwish_F_forward c x)) grad_output
       = tensor_mul grad_output (map (\<lambda>v. sigmoid v * (1 + v * (1 - sigmoid v))) x)"
    by (simp add: Swish_F_forward_closed Swish_F_backward_closed)
next
  assume ij: "i < length x \<and> j < length x"
  have eq: "(\<lambda>t. projr (snd (MemoryEfficientSwish_F_forward c (x[j := t]))) ! i)
              = (\<lambda>t. map (\<lambda>v. v * sigmoid v) (x[j := t]) ! i)"
    by (simp only: Swish_F_forward_closed snd_conv sum.sel)
  show "((\<lambda>t. projr (snd (MemoryEfficientSwish_F_forward c (x[j := t]))) ! i)
           has_real_derivative
             (if i = j then sigmoid (x ! j) * (1 + x ! j * (1 - sigmoid (x ! j))) else 0))
          (at (x ! j))"
    unfolding eq using ij by (intro nth_update_deriv swish_deriv) simp_all
qed

text \<open>
  At the tensor \<open>[0]\<close> and the gradient \<open>[2]\<close>: the derivative of the forward at 0 is
  \<open>1 / 2\<close>, and \<^verbatim>\<open>backward\<close> returns \<open>[1]\<close>.
\<close>

theorem MemoryEfficientSwish_backward_is_derivative_witness:
  "MemoryEfficientSwish_F_backward (fst (MemoryEfficientSwish_F_forward new_ctx [0])) [2] = Inr [1]
   \<and> ((\<lambda>t. projr (snd (MemoryEfficientSwish_F_forward new_ctx ([0][0 := t]))) ! 0)
           has_real_derivative 1 / 2) (at 0)"
  using MemoryEfficientSwish_backward_is_derivative [of new_ctx "[0]" "[2]" 0 0]
  by (simp add: sigmoid_def tensor_mul_def broadcast2_def)


lemma Mish_forward_closed: "Mish_forward x = Inr (map (\<lambda>v. v * tanh (softplus v)) x)"
  using tensor_mul_self [of x "\<lambda>v. tanh (softplus v)"]
  by (simp add: Mish_forward_def torch_tanh_def F_softplus_def comp_def)

lemma Mish_F_forward_closed:
  "MemoryEfficientMish_F_forward c x =
     (c\<lparr>saved_tensors := [x]\<rparr>, Inr (map (\<lambda>v. v * tanh (softplus v)) x))"
  using tensor_mul_self [of x "\<lambda>v. tanh (softplus v)"]
  by (simp add: MemoryEfficientMish_F_forward_def save_for_backward_def torch_tanh_def
      F_softplus_def comp_def)

lemma Mish_F_backward_closed:
  "MemoryEfficientMish_F_backward (c\<lparr>saved_tensors := [x]\<rparr>) grad_output =
     tensor_mul grad_output
       (map (\<lambda>v. tanh (softplus v) + v * sigmoid v * (1 - tanh (softplus v) * tanh (softplus v))) x)"
proof -
  have fx: "torch_tanh (F_softplus x) = map (\<lambda>v. tanh (softplus v)) x"
    by (simp add: torch_tanh_def F_softplus_def comp_def)
  have t1: "tensor_mul x (torch_sigmoid x) = Inr (map (\<lambda>v. v * sigmoid v) x)"
    by (simp add: torch_sigmoid_def tensor_mul_self)
  have t2: "tensor_mul (map (\<lambda>v. tanh (softplus v)) x) (map (\<lambda>v. tanh (softplus v)) x)
              = Inr (map (\<lambda>v. tanh (softplus v) * tanh (softplus v)) x)"
    by (rule tensor_mul_same)
  have t3: "tensor_mul (map (\<lambda>v. v * sigmoid v) x)
              (scalar_sub 1 (map (\<lambda>v. tanh (softplus v) * tanh (softplus v)) x))
              = Inr (map (\<lambda>v. v * sigmoid v * (1 - tanh (softplus v) * tanh (softplus v))) x)"
    using tensor_mul_same [of "\<lambda>v. v * sigmoid v" x
        "\<lambda>v. 1 - tanh (softplus v) * tanh (softplus v)"]
    by (simp add: scalar_sub_def comp_def)
  have t4: "tensor_add (map (\<lambda>v. tanh (softplus v)) x)
              (map (\<lambda>v. v * sigmoid v * (1 - tanh (softplus v) * tanh (softplus v))) x)
              = Inr (map (\<lambda>v. tanh (softplus v)
                    + v * sigmoid v * (1 - tanh (softplus v) * tanh (softplus v))) x)"
    by (rule tensor_add_same)
  show ?thesis
    by (simp add: MemoryEfficientMish_F_backward_def Let_def fx t1 t2 t3 t4 bind_res_def)
qed

text \<open>
  Claim C2.  \<^verbatim>\<open>MemoryEfficientMish.F.forward\<close> returns \<open>x * tanh (softplus x)\<close> and saves
  \<open>x\<close>; \<^verbatim>\<open>backward\<close>, run on that context, returns
  \<open>grad_output * (tanh (softplus x) + x * sigmoid x * (1 - (tanh (softplus x))\<^sup>2))\<close> for
  every \<open>x\<close> and every \<open>grad_output\<close>; and the factor is the derivative of the forward:
  output \<open>i\<close> has that derivative with respect to input \<open>j\<close> when \<open>i = j\<close>, and \<open>0\<close>
  otherwise.
\<close>

theorem MemoryEfficientMish_backward_is_derivative:
  "snd (MemoryEfficientMish_F_forward c x) = Inr (map (\<lambda>v. v * tanh (softplus v)) x)
   \<and> MemoryEfficientMish_F_backward (fst (MemoryEfficientMish_F_forward c x)) grad_output
       = tensor_mul grad_output
           (map (\<lambda>v. tanh (softplus v) + v * sigmoid v * (1 - (tanh (softplus v))\<^sup>2)) x)
   \<and> (i < length x \<and> j < length x \<longrightarrow>
        ((\<lambda>t. projr (snd (MemoryEfficientMish_F_forward c (x[j := t]))) ! i)
           has_real_derivative
             (if i = j
              then tanh (softplus (x ! j))
                   + x ! j * sigmoid (x ! j) * (1 - (tanh (softplus (x ! j)))\<^sup>2)
              else 0))
          (at (x ! j)))"
proof (intro conjI impI)
  show "snd (MemoryEfficientMish_F_forward c x) = Inr (map (\<lambda>v. v * tanh (softplus v)) x)"
    by (simp add: Mish_F_forward_closed)
  show "MemoryEfficientMish_F_backward (fst (MemoryEfficientMish_F_forward c x)) grad_output
       = tensor_mul grad_output
           (map (\<lambda>v. tanh (softplus v) + v * sigmoid v * (1 - (tanh (softplus v))\<^sup>2)) x)"
    by (simp add: Mish_F_forward_closed Mish_F_backward_closed power2_eq_square)
next
  assume ij: "i < length x \<and> j < length x"
  have eq: "(\<lambda>t. projr (snd (MemoryEfficientMish_F_forward c (x[j := t]))) ! i)
              = (\<lambda>t. map (\<lambda>v. v * tanh (softplus v)) (x[j := t]) ! i)"
    by (simp only: Mish_F_forward_closed snd_conv sum.sel)
  have d: "((\<lambda>t. t * tanh (softplus t)) has_real_derivative
             tanh (softplus (x ! j))
               + x ! j * sigmoid (x ! j) * (1 - (tanh (softplus (x ! j)))\<^sup>2)) (at (x ! j))"
    using mish_deriv [of "x ! j"] by (simp add: power2_eq_square)
  show "((\<lambda>t. projr (snd (MemoryEfficientMish_F_forward c (x[j := t]))) ! i)
           has_real_derivative
             (if i = j
              then tanh (softplus (x ! j))
                   + x ! j * sigmoid (x ! j) * (1 - (tanh (softplus (x ! j)))\<^sup>2)
              else 0))
          (at (x ! j))"
    unfolding eq using ij by (intro nth_update_deriv d) simp_all
qed

text \<open>
  At the tensor \<open>[0]\<close> and the gradient \<open>[5]\<close>: \<open>softplus 0 = ln 2\<close> and
  \<open>tanh (ln 2) = 3 / 5\<close>, so the derivative of the forward at 0 is \<open>3 / 5\<close> and
  \<^verbatim>\<open>backward\<close> returns \<open>[3]\<close>.
\<close>

theorem MemoryEfficientMish_backward_is_derivative_witness:
  "MemoryEfficientMish_F_backward (fst (MemoryEfficientMish_F_forward new_ctx [0])) [5] = Inr [3]
   \<and> ((\<lambda>t. projr (snd (MemoryEfficientMish_F_forward new_ctx ([0][0 := t]))) ! 0)
           has_real_derivative 3 / 5) (at 0)"
proof -
  have t: "tanh (ln (2::real)) = 3 / 5"
    by (simp add: tanh_ln_real)
  show ?thesis
    using MemoryEfficientMish_backward_is_derivative [of new_ctx "[0]" "[5]" 0 0]
    by (simp add: softplus_def sigmoid_def tensor_mul_def broadcast2_def t)
qed

text \<open>
  Claim C3.  For every input, \<^verbatim>\<open>SiLU.forward\<close> returns \<open>x * sigmoid x\<close> and
  \<^verbatim>\<open>Mish.forward\<close> returns \<open>x * tanh (softplus x)\<close>, element by element; neither raises.
\<close>

theorem forward_closed_form:
  "SiLU_forward x = Inr (map (\<lambda>v. v * sigmoid v) x)
   \<and> Mish_forward x = Inr (map (\<lambda>v. v * tanh (softplus v)) x)"
  by (simp add: SiLU_forward_closed Mish_forward_closed)

text \<open>
  Claim C4.  The memory-efficient modules compute the functions of the plain ones:
  \<^verbatim>\<open>MemoryEfficientSwish.forward\<close> equals \<^verbatim>\<open>SiLU.forward\<close> and
  \<^verbatim>\<open>MemoryEfficientMish.forward\<close> equals \<^verbatim>\<open>Mish.forward\<close>, on every input.
\<close>

theorem memory_efficient_same_function:
  "MemoryEfficientSwish_forward x = SiLU_forward x
   \<and> MemoryEfficientMish_forward x = Mish_forward x"
  by (simp add: MemoryEfficientSwish_forward_def MemoryEfficientMish_forward_def
      Function_apply_def MemoryEfficientSwish_F_forward_def MemoryEfficientMish_F_forward_def
      SiLU_forward_def Mish_forward_def)

section \<open>Hardswish\<close>

lemma Hardswish_forward_closed:
  "Hardswish_forward x = Inr (map (\<lambda>v. v * hardtanh (v + 3) 0 6 / 6) x)"
  using tensor_mul_self [of x "\<lambda>v. hardtanh (v + 3) 0 6"]
  by (simp add: Hardswish_forward_def F_hardtanh_def add_scalar_def div_scalar_def comp_def
      bind_res_def)

lemma hardswish_pieces:
  "v * hardtanh (v + 3) 0 6 / 6 = (if v \<le> - 3 then 0 else if 3 \<le> v then v else v * (v + 3) / 6)"
  by (simp add: hardtanh_def)

lemma on_element_Hardswish:
  "on_element Hardswish_forward v = v * hardtanh (v + 3) 0 6 / 6"
  by (simp add: on_element_def Hardswish_forward_closed)

lemma gap_free_of_breakpoints:
  assumes fin: "finite (B \<inter> {0..3::real})"
  shows "\<exists>u. 0 < u \<and> u \<le> 3 \<and> B \<inter> {u / 4..u / 2} = {}"
proof -
  let ?S = "insert 3 (B \<inter> {0<..3})"
  have "B \<inter> {0<..3} \<subseteq> B \<inter> {0..3}" by auto
  then have finS: "finite ?S" using fin finite_subset by blast
  define u where "u = Min ?S"
  have uS: "u \<in> ?S" unfolding u_def using finS by (intro Min_in) auto
  have upos: "0 < u" using uS by auto
  have ule: "u \<le> 3" using uS by auto
  have "B \<inter> {u / 4..u / 2} = {}"
  proof (rule ccontr)
    assume "B \<inter> {u / 4..u / 2} \<noteq> {}"
    then obtain b where b: "b \<in> B" "u / 4 \<le> b" "b \<le> u / 2" by auto
    then have "b \<in> ?S" using upos ule by auto
    then have "u \<le> b" unfolding u_def using finS by (intro Min_le) auto
    with b upos show False by auto
  qed
  with upos ule show ?thesis by blast
qed

lemma quadratic_not_affine:
  assumes u: "0 < u" "u \<le> 3"
    and aff: "affine_on (\<lambda>v. v * hardtanh (v + 3) 0 6 / 6) (u / 4) (u / 2)"
  shows False
proof -
  from aff obtain m c where mc:
    "\<forall>v. u / 4 \<le> v \<and> v \<le> u / 2 \<longrightarrow> v * hardtanh (v + 3) 0 6 / 6 = m * v + c"
    unfolding affine_on_def by blast
  have f: "v * hardtanh (v + 3) 0 6 / 6 = v * (v + 3) / 6" if "0 \<le> v" "v \<le> 3" for v
    using that by (simp add: hardtanh_def)
  have a: "(u / 4) * (u / 4 + 3) / 6 = m * (u / 4) + c"
    using mc [rule_format, of "u / 4"] f [of "u / 4"] u by simp
  have b: "(u / 2) * (u / 2 + 3) / 6 = m * (u / 2) + c"
    using mc [rule_format, of "u / 2"] f [of "u / 2"] u by simp
  have d: "(3 * u / 8) * (3 * u / 8 + 3) / 6 = m * (3 * u / 8) + c"
    using mc [rule_format, of "3 * u / 8"] f [of "3 * u / 8"] u by simp
  have a': "u * u + 12 * u = 96 * c + 24 * (m * u)"
    using a by (simp add: field_simps)
  have b': "2 * (u * u) + 12 * u = 48 * c + 24 * (m * u)"
    using b by (simp add: field_simps)
  have d': "72 * (u * u) + 576 * u = 3072 * c + 1152 * (m * u)"
    using d by (simp add: field_simps)
  have "u * u = 0"
    using a' b' d' by linarith
  with u show False by simp
qed

text \<open>
  Claim C5 as it is written fails: the function \<^verbatim>\<open>Hardswish.forward\<close> computes on an
  element is not piecewise linear.  Between \<open>-3\<close> and \<open>3\<close> it is the quadratic
  \<open>x * (x + 3) / 6\<close>, which is affine on no interval, whatever the breakpoints.
\<close>

theorem Hardswish_not_piecewise_linear:
  "\<not> piecewise_linear (on_element Hardswish_forward)"
proof
  assume "piecewise_linear (on_element Hardswish_forward)"
  then obtain B where fin: "\<forall>a b. finite (B \<inter> {a..b})"
    and aff: "\<forall>a b. a < b \<and> B \<inter> {a..b} = {} \<longrightarrow> affine_on (on_element Hardswish_forward) a b"
    unfolding piecewise_linear_def by blast
  from fin have "finite (B \<inter> {0..3})" by blast
  from gap_free_of_breakpoints [OF this]
  obtain u where u: "0 < u" "u \<le> 3" "B \<inter> {u / 4..u / 2} = {}" by blast
  have "u / 4 < u / 2" using u by simp
  with aff u have "affine_on (on_element Hardswish_forward) (u / 4) (u / 2)" by blast
  moreover have "on_element Hardswish_forward = (\<lambda>v. v * hardtanh (v + 3) 0 6 / 6)"
    by (rule ext) (rule on_element_Hardswish)
  ultimately show False using quadratic_not_affine [OF u(1,2)] by simp
qed

text \<open>
  Claim C5, amended.  \<^verbatim>\<open>Hardswish.forward\<close> computes \<open>x * hardtanh (x + 3) 0 6 / 6\<close>
  element by element: \<open>0\<close> for \<open>x \<le> -3\<close>, \<open>x\<close> for \<open>x \<ge> 3\<close>, and the quadratic
  \<open>x * (x + 3) / 6\<close> in between.
\<close>

theorem Hardswish_forward_pieces:
  "Hardswish_forward x =
     Inr (map (\<lambda>v. if v \<le> - 3 then 0 else if 3 \<le> v then v else v * (v + 3) / 6) x)"
  by (simp add: Hardswish_forward_closed hardswish_pieces)

text \<open>One element of each piece: \<open>-4\<close>, \<open>1\<close> and \<open>5\<close>.\<close>

theorem Hardswish_forward_pieces_witness:
  "Hardswish_forward [- 4, 1, 5] = Inr [0, 2 / 3, 5]"
  using Hardswish_forward_pieces [of "[- 4, 1, 5]"] by simp

text \<open>
  What is piecewise linear is the gate \<open>hardtanh (x + 3) 0 6 / 6\<close> that multiplies \<open>x\<close>,
  with breakpoints \<open>-3\<close> and \<open>3\<close>.
\<close>

lemma gate_piecewise_linear:
  "piecewise_linear (\<lambda>v. hardtanh (v + 3) 0 6 / 6)"
  unfolding piecewise_linear_def
proof (intro exI [of _ "{- 3, 3}"] conjI allI impI)
  fix a b :: real
  show "finite ({- 3, 3} \<inter> {a..b})" by simp
  assume ab: "a < b \<and> {- 3, 3} \<inter> {a..b} = {}"
  then have m3: "- 3 \<notin> {a..b}" and p3: "3 \<notin> {a..b}" by auto
  consider "b < - 3" | "- 3 < a" "b < 3" | "3 < a"
    using ab m3 p3 by (auto simp: not_le) 
  then show "affine_on (\<lambda>v. hardtanh (v + 3) 0 6 / 6) a b"
  proof cases
    case 1
    then show ?thesis unfolding affine_on_def
      by (intro exI [of _ 0]) (auto simp: hardtanh_def)
  next
    case 2
    then show ?thesis unfolding affine_on_def
      by (intro exI [of _ "1 / 6"] exI [of _ "1 / 2"]) (auto simp: hardtanh_def field_simps)
  next
    case 3
    then show ?thesis unfolding affine_on_def
      by (intro exI [of _ 0] exI [of _ 1]) (auto simp: hardtanh_def)
  qed
qed

section \<open>AconC\<close>

lemma AconC_element_convex: "AconC_element ch v = convex_combination ch v"
  by (simp add: AconC_element_def convex_combination_def gate_def Let_def algebra_simps)

lemma AconC_element_formula:
  "AconC_element ch v
     = (p1 ch - p2 ch) * v * sigmoid (beta ch * (p1 ch - p2 ch) * v) + p2 ch * v"
  by (simp add: AconC_element_def Let_def mult.assoc)

lemma collect_all_Inr:
  "(\<forall>a \<in> set xs. r a = Inr (g a)) \<Longrightarrow> collect (map r xs) = Inr (map g xs)"
  by (induction xs) (simp_all add: bind_res_def)

lemma channelwise_same_channels:
  assumes "\<forall>img \<in> set x. length img = length m"
  shows "channelwise f m x
           = Inr (map (\<lambda>img. map2 (\<lambda>ch pl. map (map (f ch)) pl) m img) x)"
  unfolding channelwise_def
  by (rule collect_all_Inr) (use assms in \<open>simp add: broadcast_channels_def bind_res_def\<close>)

text \<open>
  Claim C6.  For every input and all parameter values, \<^verbatim>\<open>AconC.forward\<close> computes on
  each element \<open>(p1 - p2) * x * sigmoid (beta * (p1 - p2) * x) + p2 * x\<close>, which is the
  convex combination \<open>w * (p1 * x) + (1 - w) * (p2 * x)\<close> of the two linear functions
  with the gate \<open>w = sigmoid (beta * (p1 - p2) * x)\<close> strictly between 0 and 1.  On a
  tensor it is that function applied channel by channel; when the input has the
  module's number of channels it does not raise.
\<close>

theorem AconC_forward_convex_combination:
  "AconC_forward m x = channelwise convex_combination m x
   \<and> ((\<forall>img \<in> set x. length img = length m) \<longrightarrow>
        AconC_forward m x
          = Inr (map (\<lambda>img. map2 (\<lambda>ch pl. map (map (convex_combination ch)) pl) m img) x))
   \<and> AconC_element ch v
        = (p1 ch - p2 ch) * v * sigmoid (beta ch * (p1 ch - p2 ch) * v) + p2 ch * v
   \<and> AconC_element ch v = gate ch v * (p1 ch * v) + (1 - gate ch v) * (p2 ch * v)
   \<and> gate ch v = sigmoid (beta ch * (p1 ch - p2 ch) * v)
   \<and> 0 < gate ch v \<and> gate ch v < 1"
proof -
  have fn: "AconC_element = convex_combination"
    by (intro ext) (rule AconC_element_convex)
  have "AconC_forward m x = channelwise convex_combination m x"
    by (simp add: AconC_forward_def fn)
  moreover have "(\<forall>img \<in> set x. length img = length m) \<longrightarrow>
        AconC_forward m x
          = Inr (map (\<lambda>img. map2 (\<lambda>ch pl. map (map (convex_combination ch)) pl) m img) x)"
    by (simp add: AconC_forward_def fn channelwise_same_channels)
  moreover have "AconC_element ch v = gate ch v * (p1 ch * v) + (1 - gate ch v) * (p2 ch * v)"
    by (simp add: AconC_element_convex convex_combination_def)
  moreover have "0 < gate ch v" "gate ch v < 1"
    by (simp_all add: gate_def sigmoid_pos sigmoid_less_one)
  ultimately show ?thesis
    by (simp add: AconC_element_formula gate_def)
qed

text \<open>
  One channel with \<open>p1 = 1\<close>, \<open>p2 = 0\<close>, \<open>beta = 1\<close> on a one-channel image of zeros:
  the shapes agree, the output is zero and the gate is \<open>1 / 2\<close>.
\<close>

theorem AconC_forward_convex_combination_witness:
  "AconC_forward [\<lparr>p1 = 1, p2 = 0, beta = 1\<rparr>] [[[[0, 0]]]] = Inr [[[[0, 0]]]]
   \<and> gate \<lparr>p1 = 1, p2 = 0, beta = 1\<rparr> 0 = 1 / 2"
proof -
  note t = AconC_forward_convex_combination
    [of "[\<lparr>p1 = 1, p2 = 0, beta = 1\<rparr>]" "[[[[0, 0]]]]" "\<lparr>p1 = 1, p2 = 0, beta = 1\<rparr>" 0]
  have shape: "\<forall>img \<in> set [[[[0, 0 :: real]]]]. length img = length [\<lparr>p1 = 1, p2 = 0, beta = 1 :: real\<rparr>]"
    by simp
  from t shape have "AconC_forward [\<lparr>p1 = 1, p2 = 0, beta = 1\<rparr>] [[[[0, 0]]]]
      = Inr (map (\<lambda>img. map2 (\<lambda>ch pl. map (map (convex_combination ch)) pl)
               [\<lparr>p1 = 1, p2 = 0, beta = 1\<rparr>] img) [[[[0, 0]]]])"
    by blast
  then have A: "AconC_forward [\<lparr>p1 = 1, p2 = 0, beta = 1\<rparr>] [[[[0, 0]]]] = Inr [[[[0, 0]]]]"
    by (simp add: convex_combination_def)
  from t have "gate \<lparr>p1 = 1, p2 = 0, beta = 1\<rparr> 0 = sigmoid (1 * (1 - 0) * 0)"
    by simp
  then have B: "gate \<lparr>p1 = 1, p2 = 0, beta = 1\<rparr> 0 = 1 / 2"
    by (simp add: sigmoid_def)
  show ?thesis using A B by simp
qed

section \<open>The upload handler\<close>

lemmas upload_defs = upload_def io_bind_def io_result_def io_call_def Let_def

lemma upload_conf_missing:
  "form rq ''re_conf'' = None \<Longrightarrow> upload env rq = ([], Inl TypeError)"
  by (simp add: upload_defs)

lemma upload_conf_malformed:
  "form rq ''re_conf'' = Some s \<Longrightarrow> py_float env s = Inl e \<Longrightarrow> upload env rq = ([], Inl e)"
  by (simp add: upload_defs)

lemma upload_link_branch:
  assumes "form rq ''re_conf'' = Some s" "py_float env s = Inr conf"
    and "form rq ''imageLink'' = Some link" "link \<noteq> []"
  shows "upload env rq =
    (case req_get env link of
       Inl e \<Rightarrow> ([HttpGet link], Inl e)
     | Inr content \<Rightarrow>
        (case Image_open env content of
           Inl e \<Rightarrow> ([HttpGet link], Inl e)
         | Inr opened \<Rightarrow>
            ([HttpGet link, AppDetect conf],
             bind_res (app_detect env conf [HttpGet link]) (\<lambda>(image_array, re_label, num).
             bind_res (cvtColor env image_array) (\<lambda>img.
             bind_res (Image_fromarray env img) (\<lambda>pil.
             bind_res (save_JPEG env pil) (\<lambda>jpeg.
             Inr [(''image_info'', JString (b64encode env jpeg)),
                  (''re_label'', JString re_label),
                  (''num'', JInt num)])))))))"
  using assms
  by (simp add: upload_defs truthy_def bind_res_def split: sum.splits prod.splits)

lemma upload_base64_branch:
  assumes "form rq ''re_conf'' = Some s" "py_float env s = Inr conf"
    and "\<not> truthy (form rq ''imageLink'')"
  shows "upload env rq =
    (case bind_res (case form rq ''imageBase64Code'' of None \<Rightarrow> Inl TypeError
                    | Some c \<Rightarrow> b64decode env c) (\<lambda>decoded.
          bind_res (Image_open env decoded) (\<lambda>image.
          bind_res (np_asarray env image) (\<lambda>arr. cvtColor env arr))) of
       Inl e \<Rightarrow> ([], Inl e)
     | Inr img \<Rightarrow>
        (case imwrite env (father_path env @ ''/mydata/images/test/1.png'') img of
           Inl e \<Rightarrow> ([ImWrite (father_path env @ ''/mydata/images/test/1.png'') img], Inl e)
         | Inr written \<Rightarrow>
            ([ImWrite (father_path env @ ''/mydata/images/test/1.png'') img, AppDetect conf],
             bind_res (app_detect env conf
                         [ImWrite (father_path env @ ''/mydata/images/test/1.png'') img])
               (\<lambda>(image_array, re_label, num).
             bind_res (cvtColor env image_array) (\<lambda>img.
             bind_res (Image_fromarray env img) (\<lambda>pil.
             bind_res (save_JPEG env pil) (\<lambda>jpeg.
             Inr [(''image_info'', JString (b64encode env jpeg)),
                  (''re_label'', JString re_label),
                  (''num'', JInt num)])))))))"
  using assms
  by (simp add: upload_defs bind_res_def split: sum.splits prod.splits option.splits)


lemma upload_conf_cases:
  obtains (missing) "form rq ''re_conf'' = None" "upload env rq = ([], Inl TypeError)"
  | (malformed) s e where "form rq ''re_conf'' = Some s" "py_float env s = Inl e"
      "upload env rq = ([], Inl e)"
  | (parsed) s conf where "form rq ''re_conf'' = Some s" "py_float env s = Inr conf"
proof (cases "form rq ''re_conf''")
  case None
  then show ?thesis using missing upload_conf_missing by blast
next
  case (Some s)
  then show ?thesis
    using malformed parsed upload_conf_malformed by (cases "py_float env s") blast+
qed

lemma truthy_cases:
  obtains (link) link where "form rq ''imageLink'' = Some link" "link \<noteq> []"
  | (none) "\<not> truthy (form rq ''imageLink'')"
  by (cases "form rq ''imageLink''") (auto simp: truthy_def)

lemma link_branch_trace:
  assumes "form rq ''imageLink'' = Some link" "link \<noteq> []"
  shows "fst (upload env rq) = [] \<or> fst (upload env rq) = [HttpGet link]
         \<or> (\<exists>conf. fst (upload env rq) = [HttpGet link, AppDetect conf])"
proof (cases rule: upload_conf_cases [of rq env])
  case (parsed s conf)
  show ?thesis
    by (simp add: upload_link_branch [OF parsed assms] split: sum.splits)
qed simp_all

lemma link_branch_ignores_payload:
  assumes "form rq ''imageLink'' = Some link" "link \<noteq> []"
  shows "upload env (rq\<lparr>form := (form rq)(''imageBase64Code'' := payload)\<rparr>) = upload env rq"
  using assms by (simp add: upload_defs truthy_def)


lemma link_branch_ignores_b64decode:
  assumes "form rq ''imageLink'' = Some link" "link \<noteq> []"
  shows "upload (env\<lparr>b64decode := d\<rparr>) rq = upload env rq"
  using assms by (simp add: upload_defs truthy_def split: option.splits)

lemma base64_branch_trace:
  assumes "\<not> truthy (form rq ''imageLink'')"
    and "ImWrite p a \<in> set (fst (upload env rq))"
  shows "p = father_path env @ ''/mydata/images/test/1.png''
         \<and> (\<exists>c decoded opened arr. form rq ''imageBase64Code'' = Some c
               \<and> b64decode env c = Inr decoded \<and> Image_open env decoded = Inr opened
               \<and> np_asarray env opened = Inr arr \<and> cvtColor env arr = Inr a)"
proof (cases rule: upload_conf_cases [of rq env])
  case (parsed s conf)
  show ?thesis
    using assms(2) unfolding upload_base64_branch [OF parsed assms(1)]
    by (auto simp: bind_res_def split: sum.splits option.splits)
qed (use assms in simp_all)

text \<open>
  Claim C7 says that the handler writes the received image to the fixed path before it
  calls \<^verbatim>\<open>service.app_detect\<close>, whichever way the image arrives.  On the \<^verbatim>\<open>imageLink\<close>
  path the code does not: for the request below, in the example environment, the only
  calls are the fetch and the detector, nothing is written in between, and the detector
  annotates the image that was on disk before.
\<close>

theorem upload_imageLink_skips_write_example:
  "upload example_env link_request =
     ([HttpGet ''http://example.com/cat.png'', AppDetect (1 / 2)],
      Inr [(''image_info'', JString ''b64:jpeg:old''),
           (''re_label'', JString ''1 object''),
           (''num'', JInt 1)])"
  by (simp add: upload_defs example_env_def link_request_def truthy_def written_images_def)

text \<open>
  Claim C10.  When the request has a non-empty \<^verbatim>\<open>imageLink\<close>, the handler uses the URL
  alone: its run is the same whatever \<^verbatim>\<open>imageBase64Code\<close> holds or whether it is there
  at all, and whatever \<^verbatim>\<open>base64.b64decode\<close> would answer; it writes no image; and, once
  \<^verbatim>\<open>re_conf\<close> has parsed, its first call is the fetch of the link.  An image is written
  only when \<^verbatim>\<open>imageLink\<close> is absent or empty: it is then the decoded base64 payload,
  written to \<^verbatim>\<open>mydata/images/test/1.png\<close> under the application's directory.
\<close>

theorem upload_imageLink_takes_precedence:
  "(form rq ''imageLink'' = Some link \<and> link \<noteq> [] \<longrightarrow>
      upload env (rq\<lparr>form := (form rq)(''imageBase64Code'' := payload)\<rparr>) = upload env rq
      \<and> upload (env\<lparr>b64decode := d\<rparr>) rq = upload env rq
      \<and> (\<forall>p a. ImWrite p a \<notin> set (fst (upload env rq)))
      \<and> (form rq ''re_conf'' = Some s \<and> py_float env s = Inr conf \<longrightarrow>
           take 1 (fst (upload env rq)) = [HttpGet link]))
   \<and> (ImWrite p a \<in> set (fst (upload env rq)) \<longrightarrow>
        \<not> truthy (form rq ''imageLink'')
        \<and> p = father_path env @ ''/mydata/images/test/1.png''
        \<and> (\<exists>c decoded opened arr. form rq ''imageBase64Code'' = Some c
              \<and> b64decode env c = Inr decoded \<and> Image_open env decoded = Inr opened
              \<and> np_asarray env opened = Inr arr \<and> cvtColor env arr = Inr a))"
proof (intro conjI impI allI)
  assume l: "form rq ''imageLink'' = Some link \<and> link \<noteq> []"
  then have l1: "form rq ''imageLink'' = Some link" and l2: "link \<noteq> []" by simp_all
  show "upload env (rq\<lparr>form := (form rq)(''imageBase64Code'' := payload)\<rparr>) = upload env rq"
    by (rule link_branch_ignores_payload [OF l1 l2])
  show "upload (env\<lparr>b64decode := d\<rparr>) rq = upload env rq"
    by (rule link_branch_ignores_b64decode [OF l1 l2])
  show "ImWrite p a \<notin> set (fst (upload env rq))" for p a
    using link_branch_trace [OF l1 l2, of env] by auto
  assume "form rq ''re_conf'' = Some s \<and> py_float env s = Inr conf"
  then have c: "form rq ''re_conf'' = Some s" "py_float env s = Inr conf" by simp_all
  show "take 1 (fst (upload env rq)) = [HttpGet link]"
    by (simp add: upload_link_branch [OF c l1 l2] split: sum.splits)
next
  assume w: "ImWrite p a \<in> set (fst (upload env rq))"
  show nt: "\<not> truthy (form rq ''imageLink'')"
  proof (cases rule: truthy_cases [of rq])
    case (link l)
    then show ?thesis using w link_branch_trace [OF link, of env] by auto
  qed
  show "p = father_path env @ ''/mydata/images/test/1.png''"
    using base64_branch_trace [OF nt w] by blast
  show "\<exists>c decoded opened arr. form rq ''imageBase64Code'' = Some c
              \<and> b64decode env c = Inr decoded \<and> Image_open env decoded = Inr opened
              \<and> np_asarray env opened = Inr arr \<and> cvtColor env arr = Inr a"
    using base64_branch_trace [OF nt w] by blast
qed

text \<open>
  A request with both fields runs as the request with the link alone does, and writes
  nothing; the request with the payload alone writes the decoded image.
\<close>

theorem upload_imageLink_takes_precedence_witness:
  "upload example_env both_request = upload example_env link_request
   \<and> ImWrite ''/srv/app/mydata/images/test/1.png'' ''dog''
         \<notin> set (fst (upload example_env both_request))
   \<and> take 1 (fst (upload example_env both_request)) = [HttpGet ''http://example.com/cat.png'']
   \<and> ImWrite ''/srv/app/mydata/images/test/1.png'' ''dog''
         \<in> set (fst (upload example_env base64_request))
   \<and> \<not> truthy (form base64_request ''imageLink'')"
proof -
  have l: "form both_request ''imageLink'' = Some ''http://example.com/cat.png''
           \<and> ''http://example.com/cat.png'' \<noteq> []"
    by (simp add: both_request_def)
  have c: "form both_request ''re_conf'' = Some ''0.5''
           \<and> py_float example_env ''0.5'' = Inr (1 / 2)"
    by (simp add: both_request_def example_env_def)
  have same: "both_request\<lparr>form := (form both_request)(''imageBase64Code'' := None)\<rparr>
              = link_request"
    by (auto simp: both_request_def link_request_def fun_eq_iff)
  note t = upload_imageLink_takes_precedence
    [of both_request "''http://example.com/cat.png''" example_env None _ "''0.5''" "1 / 2"
        "''/srv/app/mydata/images/test/1.png''" "''dog''"]
  have A: "upload example_env both_request = upload example_env link_request"
    using t l same by simp
  have B: "ImWrite ''/srv/app/mydata/images/test/1.png'' ''dog''
         \<notin> set (fst (upload example_env both_request))"
    using t l by blast
  have C: "take 1 (fst (upload example_env both_request)) = [HttpGet ''http://example.com/cat.png'']"
    using t l c by blast
  have w: "ImWrite ''/srv/app/mydata/images/test/1.png'' ''dog''
         \<in> set (fst (upload example_env base64_request))"
    by (simp add: upload_defs example_env_def base64_request_def truthy_def written_images_def)
  have D: "\<not> truthy (form base64_request ''imageLink'')"
    using upload_imageLink_takes_precedence
      [of base64_request _ example_env _ _ _ _ "''/srv/app/mydata/images/test/1.png''" "''dog''"] w
    by blast
  show ?thesis using A B C w D by blast
qed


lemma respond_Inr:
  assumes "bind_res (app_detect env conf t) (\<lambda>(image_array, re_label, num).
             bind_res (cvtColor env image_array) (\<lambda>img.
             bind_res (Image_fromarray env img) (\<lambda>pil.
             bind_res (save_JPEG env pil) (\<lambda>jpeg.
             Inr [(''image_info'', JString (b64encode env jpeg)),
                  (''re_label'', JString re_label),
                  (''num'', JInt num)])))) = Inr resp"
  shows "\<exists>image_array re_label num img pil jpeg.
           app_detect env conf t = Inr (image_array, re_label, num)
         \<and> cvtColor env image_array = Inr img \<and> Image_fromarray env img = Inr pil
         \<and> save_JPEG env pil = Inr jpeg
         \<and> resp = [(''image_info'', JString (b64encode env jpeg)),
                   (''re_label'', JString re_label),
                   (''num'', JInt num)]"
  using assms by (auto simp: bind_res_def split: sum.splits prod.splits)

lemma upload_Inr:
  assumes "snd (upload env rq) = Inr resp"
  shows "\<exists>s conf t image_array re_label num img pil jpeg.
           form rq ''re_conf'' = Some s \<and> py_float env s = Inr conf
         \<and> fst (upload env rq) = t @ [AppDetect conf]
         \<and> app_detect env conf t = Inr (image_array, re_label, num)
         \<and> cvtColor env image_array = Inr img \<and> Image_fromarray env img = Inr pil
         \<and> save_JPEG env pil = Inr jpeg
         \<and> resp = [(''image_info'', JString (b64encode env jpeg)),
                   (''re_label'', JString re_label),
                   (''num'', JInt num)]"
proof (cases rule: upload_conf_cases [of rq env])
  case (parsed s conf)
  show ?thesis
  proof (cases rule: truthy_cases [of rq])
    case (link l)
    note u = upload_link_branch [OF parsed link]
    from assms obtain content opened where
      "req_get env l = Inr content" "Image_open env content = Inr opened"
      unfolding u by (auto split: sum.splits)
    with assms u respond_Inr [of env conf "[HttpGet l]" resp] parsed
    show ?thesis by (simp; blast)
  next
    case none
    note u = upload_base64_branch [OF parsed none]
    let ?dirs = "father_path env @ ''/mydata/images/test/1.png''"
    from assms obtain img written where
      i: "bind_res (case form rq ''imageBase64Code'' of None \<Rightarrow> Inl TypeError
                    | Some c \<Rightarrow> b64decode env c) (\<lambda>decoded.
          bind_res (Image_open env decoded) (\<lambda>image.
          bind_res (np_asarray env image) (\<lambda>arr. cvtColor env arr))) = Inr img"
      and w: "imwrite env ?dirs img = Inr written"
      unfolding u by (auto split: sum.splits)
    have "fst (upload env rq) = [ImWrite ?dirs img] @ [AppDetect conf]"
      unfolding u by (simp add: i w)
    moreover from assms have "bind_res (app_detect env conf [ImWrite ?dirs img])
               (\<lambda>(image_array, re_label, num).
             bind_res (cvtColor env image_array) (\<lambda>img.
             bind_res (Image_fromarray env img) (\<lambda>pil.
             bind_res (save_JPEG env pil) (\<lambda>jpeg.
             Inr [(''image_info'', JString (b64encode env jpeg)),
                  (''re_label'', JString re_label),
                  (''num'', JInt num)])))) = Inr resp"
      unfolding u by (simp add: i w)
    ultimately show ?thesis
      using respond_Inr [of env conf "[ImWrite ?dirs img]" resp] parsed by blast
  qed
qed (use assms in simp_all)

text \<open>
  Claim C9.  When the handler returns a response, it is the JSON object with the keys
  \<^verbatim>\<open>image_info\<close>, \<^verbatim>\<open>re_label\<close> and \<^verbatim>\<open>num\<close> and no other: the call of
  \<^verbatim>\<open>service.app_detect\<close>, the last call of the run and the only one with the parsed
  \<^verbatim>\<open>re_conf\<close>, returned an image, a label and a count; \<^verbatim>\<open>image_info\<close> is the base64
  encoding of the JPEG encoding of that image (its channels reordered from BGR to RGB),
  and \<^verbatim>\<open>re_label\<close> and \<^verbatim>\<open>num\<close> are that label and that count.
\<close>

theorem upload_success_response:
  "snd (upload env rq) = Inr resp \<longrightarrow>
     (\<exists>s conf t image_array re_label num img pil jpeg.
         form rq ''re_conf'' = Some s \<and> py_float env s = Inr conf
       \<and> fst (upload env rq) = t @ [AppDetect conf]
       \<and> app_detect env conf t = Inr (image_array, re_label, num)
       \<and> cvtColor env image_array = Inr img \<and> Image_fromarray env img = Inr pil
       \<and> save_JPEG env pil = Inr jpeg
       \<and> resp = [(''image_info'', JString (b64encode env jpeg)),
                 (''re_label'', JString re_label),
                 (''num'', JInt num)])
     \<and> map fst resp = [''image_info'', ''re_label'', ''num'']"
proof
  assume a: "snd (upload env rq) = Inr resp"
  from upload_Inr [OF a] show
    "(\<exists>s conf t image_array re_label num img pil jpeg.
         form rq ''re_conf'' = Some s \<and> py_float env s = Inr conf
       \<and> fst (upload env rq) = t @ [AppDetect conf]
       \<and> app_detect env conf t = Inr (image_array, re_label, num)
       \<and> cvtColor env image_array = Inr img \<and> Image_fromarray env img = Inr pil
       \<and> save_JPEG env pil = Inr jpeg
       \<and> resp = [(''image_info'', JString (b64encode env jpeg)),
                 (''re_label'', JString re_label),
                 (''num'', JInt num)])
     \<and> map fst resp = [''image_info'', ''re_label'', ''num'']"
    by auto
qed

text \<open>The request with a base64 payload, in the example environment.\<close>

theorem upload_success_response_witness:
  "snd (upload example_env base64_request)
     = Inr [(''image_info'', JString ''b64:jpeg:dog''),
            (''re_label'', JString ''1 object''),
            (''num'', JInt 1)]
   \<and> map fst [(''image_info'', JString ''b64:jpeg:dog''),
               (''re_label'', JString ''1 object''),
               (''num'', JInt 1)] = [''image_info'', ''re_label'', ''num'']"
proof -
  have r: "snd (upload example_env base64_request)
     = Inr [(''image_info'', JString ''b64:jpeg:dog''),
            (''re_label'', JString ''1 object''),
            (''num'', JInt 1)]"
    by (simp add: upload_defs example_env_def base64_request_def truthy_def written_images_def)
  from upload_success_response [of example_env base64_request] r
  show ?thesis by blast
qed


lemma upload_trace_short:
  "length (fst (upload env rq)) \<le> 2 \<and> distinct (fst (upload env rq))"
proof (cases rule: upload_conf_cases [of rq env])
  case (parsed s conf)
  show ?thesis
  proof (cases rule: truthy_cases [of rq])
    case (link l)
    show ?thesis
      by (simp add: upload_link_branch [OF parsed link] split: sum.splits)
  next
    case none
    show ?thesis
      by (simp add: upload_base64_branch [OF parsed none] split: sum.splits)
  qed
qed simp_all

lemma upload_Inr_received:
  assumes "snd (upload env rq) = Inr resp"
  shows "(\<exists>link content opened. form rq ''imageLink'' = Some link \<and> link \<noteq> []
            \<and> req_get env link = Inr content \<and> Image_open env content = Inr opened)
         \<or> (\<not> truthy (form rq ''imageLink'')
            \<and> (\<exists>c decoded opened arr img written. form rq ''imageBase64Code'' = Some c
                 \<and> b64decode env c = Inr decoded \<and> Image_open env decoded = Inr opened
                 \<and> np_asarray env opened = Inr arr \<and> cvtColor env arr = Inr img
                 \<and> imwrite env (father_path env @ ''/mydata/images/test/1.png'') img
                     = Inr written))"
proof (cases rule: upload_conf_cases [of rq env])
  case (parsed s conf)
  show ?thesis
  proof (cases rule: truthy_cases [of rq])
    case (link l)
    from assms show ?thesis
      unfolding upload_link_branch [OF parsed link] using link
      by (auto split: sum.splits)
  next
    case none
    from assms show ?thesis
      unfolding upload_base64_branch [OF parsed none] using none
      by (auto simp: bind_res_def split: sum.splits option.splits)
  qed
qed (use assms in simp_all)

text \<open>
  Claim C8.  The handler recovers from no fault.  When \<^verbatim>\<open>re_conf\<close> is absent or is not
  a float, when the fetch of \<^verbatim>\<open>imageLink\<close> fails or what it returns is no image, when
  \<^verbatim>\<open>imageBase64Code\<close> is absent, is not base64 or decodes to no image, the run ends
  there with that very fault and no response.  A response is returned only when every
  step has succeeded: the parse, the receipt of the image along the path taken, the
  detector and the encoding of its image.  No call is made twice.
\<close>

theorem upload_faults_propagate:
  "(form rq ''re_conf'' = None \<longrightarrow> upload env rq = ([], Inl TypeError))
   \<and> (form rq ''re_conf'' = Some s \<and> py_float env s = Inl e \<longrightarrow> upload env rq = ([], Inl e))
   \<and> (form rq ''re_conf'' = Some s \<and> py_float env s = Inr conf \<longrightarrow>
        (form rq ''imageLink'' = Some link \<and> link \<noteq> [] \<longrightarrow>
           (req_get env link = Inl e \<longrightarrow> upload env rq = ([HttpGet link], Inl e))
         \<and> (req_get env link = Inr content \<and> Image_open env content = Inl e \<longrightarrow>
               upload env rq = ([HttpGet link], Inl e)))
      \<and> (\<not> truthy (form rq ''imageLink'') \<longrightarrow>
           (form rq ''imageBase64Code'' = None \<longrightarrow> upload env rq = ([], Inl TypeError))
         \<and> (form rq ''imageBase64Code'' = Some c \<and> b64decode env c = Inl e \<longrightarrow>
               upload env rq = ([], Inl e))
         \<and> (form rq ''imageBase64Code'' = Some c \<and> b64decode env c = Inr decoded
               \<and> Image_open env decoded = Inl e \<longrightarrow> upload env rq = ([], Inl e))))
   \<and> (snd (upload env rq) = Inr resp \<longrightarrow>
        (\<exists>s conf t detected img pil jpeg.
            form rq ''re_conf'' = Some s \<and> py_float env s = Inr conf
          \<and> app_detect env conf t = Inr detected
          \<and> cvtColor env (fst detected) = Inr img \<and> Image_fromarray env img = Inr pil
          \<and> save_JPEG env pil = Inr jpeg)
      \<and> ((\<exists>link content opened. form rq ''imageLink'' = Some link \<and> link \<noteq> []
            \<and> req_get env link = Inr content \<and> Image_open env content = Inr opened)
         \<or> (\<not> truthy (form rq ''imageLink'')
            \<and> (\<exists>c decoded opened arr img written. form rq ''imageBase64Code'' = Some c
                 \<and> b64decode env c = Inr decoded \<and> Image_open env decoded = Inr opened
                 \<and> np_asarray env opened = Inr arr \<and> cvtColor env arr = Inr img
                 \<and> imwrite env (father_path env @ ''/mydata/images/test/1.png'') img
                     = Inr written))))
   \<and> length (fst (upload env rq)) \<le> 2 \<and> distinct (fst (upload env rq))"
proof (intro conjI impI; (elim conjE)?)
  show "form rq ''re_conf'' = None \<Longrightarrow> upload env rq = ([], Inl TypeError)"
    by (rule upload_conf_missing)
  show "form rq ''re_conf'' = Some s \<Longrightarrow> py_float env s = Inl e \<Longrightarrow> upload env rq = ([], Inl e)"
    by (rule upload_conf_malformed)
  show "length (fst (upload env rq)) \<le> 2" "distinct (fst (upload env rq))"
    using upload_trace_short [of env rq] by simp_all
next
  assume c: "form rq ''re_conf'' = Some s" "py_float env s = Inr conf"
    and l: "form rq ''imageLink'' = Some link" "link \<noteq> []"
  note u = upload_link_branch [OF c l]
  show "req_get env link = Inl e \<Longrightarrow> upload env rq = ([HttpGet link], Inl e)"
    by (simp add: u)
  show "req_get env link = Inr content \<Longrightarrow> Image_open env content = Inl e
        \<Longrightarrow> upload env rq = ([HttpGet link], Inl e)"
    by (simp add: u)
next
  assume c: "form rq ''re_conf'' = Some s" "py_float env s = Inr conf"
    and n: "\<not> truthy (form rq ''imageLink'')"
  note u = upload_base64_branch [OF c n]
  show "form rq ''imageBase64Code'' = None \<Longrightarrow> upload env rq = ([], Inl TypeError)"
    by (simp add: u bind_res_def)
  show "form rq ''imageBase64Code'' = Some c \<Longrightarrow> b64decode env c = Inl e
        \<Longrightarrow> upload env rq = ([], Inl e)"
    by (simp add: u bind_res_def)
  show "form rq ''imageBase64Code'' = Some c \<Longrightarrow> b64decode env c = Inr decoded
        \<Longrightarrow> Image_open env decoded = Inl e \<Longrightarrow> upload env rq = ([], Inl e)"
    by (simp add: u bind_res_def)
next
  assume a: "snd (upload env rq) = Inr resp"
  from upload_Inr [OF a]
  show "\<exists>s conf t detected img pil jpeg.
            form rq ''re_conf'' = Some s \<and> py_float env s = Inr conf
          \<and> app_detect env conf t = Inr detected
          \<and> cvtColor env (fst detected) = Inr img \<and> Image_fromarray env img = Inr pil
          \<and> save_JPEG env pil = Inr jpeg"
    by fastforce
  from upload_Inr_received [OF a]
  show "(\<exists>link content opened. form rq ''imageLink'' = Some link \<and> link \<noteq> []
            \<and> req_get env link = Inr content \<and> Image_open env content = Inr opened)
         \<or> (\<not> truthy (form rq ''imageLink'')
            \<and> (\<exists>c decoded opened arr img written. form rq ''imageBase64Code'' = Some c
                 \<and> b64decode env c = Inr decoded \<and> Image_open env decoded = Inr opened
                 \<and> np_asarray env opened = Inr arr \<and> cvtColor env arr = Inr img
                 \<and> imwrite env (father_path env @ ''/mydata/images/test/1.png'') img
                     = Inr written))" .
qed


text \<open>
  One request for each fault, in the example environment, and the request with a
  base64 payload for the run that succeeds.
\<close>

theorem upload_faults_propagate_witness:
  "upload example_env \<lparr>form = [''imageLink'' \<mapsto> ''http://example.com/cat.png'']\<rparr>
     = ([], Inl TypeError)
   \<and> upload example_env \<lparr>form = [''re_conf'' \<mapsto> ''high'']\<rparr> = ([], Inl ValueError)
   \<and> upload example_env
         \<lparr>form = [''re_conf'' \<mapsto> ''0.5'', ''imageLink'' \<mapsto> ''http://example.com/gone.png'']\<rparr>
       = ([HttpGet ''http://example.com/gone.png''], Inl (Raised ''ConnectionError''))
   \<and> upload example_env
         \<lparr>form = [''re_conf'' \<mapsto> ''0.5'', ''imageLink'' \<mapsto> ''http://example.com/empty'']\<rparr>
       = ([HttpGet ''http://example.com/empty''], Inl (Raised ''UnidentifiedImageError''))
   \<and> upload example_env \<lparr>form = [''re_conf'' \<mapsto> ''0.5'']\<rparr> = ([], Inl TypeError)
   \<and> upload example_env \<lparr>form = [''re_conf'' \<mapsto> ''0.5'', ''imageBase64Code'' \<mapsto> ''%%%'']\<rparr>
       = ([], Inl (Raised ''binascii.Error''))
   \<and> upload example_env \<lparr>form = [''re_conf'' \<mapsto> ''0.5'', ''imageBase64Code'' \<mapsto> []]\<rparr>
       = ([], Inl (Raised ''UnidentifiedImageError''))
   \<and> length (fst (upload example_env base64_request)) \<le> 2
   \<and> \<not> truthy (form base64_request ''imageLink'')"
proof -
  let ?cat = "''http://example.com/cat.png''"
  let ?gone = "''http://example.com/gone.png''"
  let ?empty = "''http://example.com/empty''"
  have 1: "upload example_env \<lparr>form = [''imageLink'' \<mapsto> ?cat]\<rparr> = ([], Inl TypeError)"
    using upload_faults_propagate
      [where rq = "\<lparr>form = [''imageLink'' \<mapsto> ?cat]\<rparr>" and env = example_env]
    by simp
  have 2: "upload example_env \<lparr>form = [''re_conf'' \<mapsto> ''high'']\<rparr> = ([], Inl ValueError)"
    using upload_faults_propagate
      [where rq = "\<lparr>form = [''re_conf'' \<mapsto> ''high'']\<rparr>" and env = example_env
         and s = "''high''" and e = ValueError]
    by (simp add: example_env_def)
  have 3: "upload example_env \<lparr>form = [''re_conf'' \<mapsto> ''0.5'', ''imageLink'' \<mapsto> ?gone]\<rparr>
       = ([HttpGet ?gone], Inl (Raised ''ConnectionError''))"
    using upload_faults_propagate
      [where rq = "\<lparr>form = [''re_conf'' \<mapsto> ''0.5'', ''imageLink'' \<mapsto> ?gone]\<rparr>"
         and env = example_env and s = "''0.5''" and conf = "1 / 2" and link = ?gone
         and e = "Raised ''ConnectionError''"]
    by (simp add: example_env_def)
  have 4: "upload example_env \<lparr>form = [''re_conf'' \<mapsto> ''0.5'', ''imageLink'' \<mapsto> ?empty]\<rparr>
       = ([HttpGet ?empty], Inl (Raised ''UnidentifiedImageError''))"
    using upload_faults_propagate
      [where rq = "\<lparr>form = [''re_conf'' \<mapsto> ''0.5'', ''imageLink'' \<mapsto> ?empty]\<rparr>"
         and env = example_env and s = "''0.5''" and conf = "1 / 2" and link = ?empty
         and content = "[]" and e = "Raised ''UnidentifiedImageError''"]
    by (simp add: example_env_def)
  have 5: "upload example_env \<lparr>form = [''re_conf'' \<mapsto> ''0.5'']\<rparr> = ([], Inl TypeError)"
    using upload_faults_propagate
      [where rq = "\<lparr>form = [''re_conf'' \<mapsto> ''0.5'']\<rparr>"
         and env = example_env and s = "''0.5''" and conf = "1 / 2"]
    by (simp add: example_env_def truthy_def)
  have 6: "upload example_env \<lparr>form = [''re_conf'' \<mapsto> ''0.5'', ''imageBase64Code'' \<mapsto> ''%%%'']\<rparr>
       = ([], Inl (Raised ''binascii.Error''))"
    using upload_faults_propagate
      [where rq = "\<lparr>form = [''re_conf'' \<mapsto> ''0.5'', ''imageBase64Code'' \<mapsto> ''%%%'']\<rparr>"
         and env = example_env and s = "''0.5''" and conf = "1 / 2" and c = "''%%%''"
         and e = "Raised ''binascii.Error''"]
    by (simp add: example_env_def truthy_def)
  have 7: "upload example_env \<lparr>form = [''re_conf'' \<mapsto> ''0.5'', ''imageBase64Code'' \<mapsto> []]\<rparr>
       = ([], Inl (Raised ''UnidentifiedImageError''))"
    using upload_faults_propagate
      [where rq = "\<lparr>form = [''re_conf'' \<mapsto> ''0.5'', ''imageBase64Code'' \<mapsto> []]\<rparr>"
         and env = example_env and s = "''0.5''" and conf = "1 / 2" and c = "[]"
         and decoded = "[]" and e = "Raised ''UnidentifiedImageError''"]
    by (simp add: example_env_def truthy_def)
  have r: "snd (upload example_env base64_request)
     = Inr [(''image_info'', JString ''b64:jpeg:dog''),
            (''re_label'', JString ''1 object''),
            (''num'', JInt 1)]"
    by (simp add: upload_defs example_env_def base64_request_def truthy_def written_images_def)
  have nl: "form base64_request ''imageLink'' = None"
    by (simp add: base64_request_def)
  have 8: "length (fst (upload example_env base64_request)) \<le> 2
           \<and> \<not> truthy (form base64_request ''imageLink'')"
    using upload_faults_propagate [where rq = base64_request and env = example_env] r nl
    by auto
  show ?thesis using 1 2 3 4 5 6 7 8 by blast
qed

end
